theory Spec2Isabelle
  imports Complex_Main
begin

section \<open>Data model\<close>

text \<open>
  The two DynamoDB tables of \<^verbatim>\<open>app/domains/models.py\<close>. An item of \<^verbatim>\<open>TeamMembers\<close> is
  the dictionary built by \<^verbatim>\<open>TeamMemberDB.create_team_member\<close>; an item of \<^verbatim>\<open>Credits\<close> is
  the dictionary built by \<^verbatim>\<open>CreditsDB.create_credits\<close>. Python strings are \<open>string\<close>,
  Python's unbounded integers are \<open>int\<close>, timestamps and UUIDs are the strings the code
  stores (\<^verbatim>\<open>isoformat()\<close>, \<^verbatim>\<open>str(uuid.uuid4())\<close>).
\<close>

record team_member =
  tm_id :: string
  tm_manager_email :: string
  team_member_email :: string
  status :: string
  invitedAt :: string
  generation_link :: string
  result_page_link :: string
  tm_credits :: int

record credits_item =
  cr_id :: string
  manager_email :: string
  credits :: int
  last_updated :: string

text \<open>
  What the program does to the outside, in the order it does it: a row put into or updated
  in a table, a mail accepted by the mail provider. Reads are not recorded.
\<close>

datatype effect =
    PutCredits string string int
  | UpdateCredits string int
  | PutMember string string
  | UpdateMember string int
  | MailSent string string string

record world =
  team_table :: "team_member list"
  credits_table :: "credits_item list"
  effects :: "effect list"

text \<open>
  The exceptions the code raises. \<open>TeamServiceError\<close> carries message and status code
  (\<^verbatim>\<open>TeamMemberAlreadyExistsError\<close> is the subclass with code 409), \<open>HTTPException\<close> status
  code and detail.
\<close>

datatype exn =
    TeamServiceError string nat
  | HTTPException nat string
  | ValueError string
  | SignatureVerificationError string
  | Exception string

fun string_of_nat :: "nat \<Rightarrow> string" where
  "string_of_nat n =
     (if n < 10 then [char_of (48 + n)]
      else string_of_nat (n div 10) @ [char_of (48 + n mod 10)])"

declare string_of_nat.simps [simp del]

text \<open>
  \<^verbatim>\<open>str(e)\<close>: the message for the exceptions built from one; for an \<open>HTTPException\<close>
  the status code, a colon and the detail.
\<close>

fun str_exn :: "exn \<Rightarrow> string" where
  "str_exn (TeamServiceError msg code) = msg"
| "str_exn (HTTPException code detail) = string_of_nat code @ '': '' @ detail"
| "str_exn (ValueError msg) = msg"
| "str_exn (SignatureVerificationError msg) = msg"
| "str_exn (Exception msg) = msg"

section \<open>Discount calculator\<close>

text \<open>\<^verbatim>\<open>app/config.py\<close>: \<^verbatim>\<open>DISCOUNTS\<close>, thresholds in descending order.\<close>

definition DISCOUNTS :: "(int \<times> real) list" where
  "DISCOUNTS = [(100, 0.35), (50, 0.30), (15, 0.25), (5, 0.20)]"

text \<open>
  \<^verbatim>\<open>next((rate for size, rate in table if team_size >= size), 0)\<close>: the rate of the first
  row whose threshold the team size reaches, else the default 0.
\<close>

fun first_rate :: "(int \<times> real) list \<Rightarrow> int \<Rightarrow> real" where
  "first_rate [] team_size = 0"
| "first_rate ((sz, rate) # rest) team_size =
     (if team_size \<ge> sz then rate else first_rate rest team_size)"

definition apply_discount :: "int \<Rightarrow> real" where
  "apply_discount team_size = first_rate DISCOUNTS team_size"

section \<open>Key-value store\<close>

text \<open>
  A table is the list of its rows. The primary key of both tables is the row's id
  (\<^verbatim>\<open>Key={'id': ...}\<close> in \<^verbatim>\<open>update_item\<close>): \<^verbatim>\<open>put_item\<close> replaces the row with the
  same id and adds the row otherwise, \<^verbatim>\<open>update_item\<close> changes the row with the given id.
  The store is modelled as available: its calls answer, so the only exceptions are those
  the code raises itself.
\<close>

definition put_credits :: "credits_item \<Rightarrow> credits_item list \<Rightarrow> credits_item list" where
  "put_credits item tbl =
     (if cr_id item \<in> set (map cr_id tbl)
      then map (\<lambda>x. if cr_id x = cr_id item then item else x) tbl
      else tbl @ [item])"

definition put_member :: "team_member \<Rightarrow> team_member list \<Rightarrow> team_member list" where
  "put_member item tbl =
     (if tm_id item \<in> set (map tm_id tbl)
      then map (\<lambda>x. if tm_id x = tm_id item then item else x) tbl
      else tbl @ [item])"

text \<open>
  Modelled from the spec: the secondary index \<^verbatim>\<open>ManagerEmailIndex\<close> that every query
  names is declared nowhere in the sources (\<^verbatim>\<open>create_tables.py\<close> declares none). The
  spec gives it as an equality query by manager email that, sorted descending with limit 1,
  fetches the current balance row. Here the index lists a manager's rows in the order they
  were written; the descending query with \<^verbatim>\<open>Limit=1\<close> answers with the row written last.
\<close>

definition query_credits_latest :: "string \<Rightarrow> credits_item list \<Rightarrow> credits_item list" where
  "query_credits_latest m tbl = take 1 (rev (filter (\<lambda>x. manager_email x = m) tbl))"

definition query_members :: "string \<Rightarrow> team_member list \<Rightarrow> team_member list" where
  "query_members m tbl = filter (\<lambda>x. tm_manager_email x = m) tbl"

section \<open>Credit ledger: \<^verbatim>\<open>CreditsDB\<close>\<close>

definition CreditsDB_get_credits :: "string \<Rightarrow> world \<Rightarrow> int" where
  "CreditsDB_get_credits m w =
     (case query_credits_latest m (credits_table w) of
        item # _ \<Rightarrow> credits item
      | [] \<Rightarrow> 0)"

definition CreditsDB_create_credits ::
  "string \<Rightarrow> string \<Rightarrow> string \<Rightarrow> int \<Rightarrow> world \<Rightarrow> credits_item \<times> world" where
  "CreditsDB_create_credits uuid now m c w =
     (let item = \<lparr>cr_id = uuid, manager_email = m, credits = c, last_updated = now\<rparr>
      in (item, w\<lparr>credits_table := put_credits item (credits_table w),
                  effects := effects w @ [PutCredits uuid m c]\<rparr>))"

definition CreditsDB_update_credits ::
  "string \<Rightarrow> string \<Rightarrow> int \<Rightarrow> world \<Rightarrow> (exn + credits_item) \<times> world" where
  "CreditsDB_update_credits now m c w =
     (case query_credits_latest m (credits_table w) of
        item # _ \<Rightarrow>
          (Inr (item\<lparr>credits := c, last_updated := now\<rparr>),
           w\<lparr>credits_table :=
                map (\<lambda>x. if cr_id x = cr_id item then x\<lparr>credits := c, last_updated := now\<rparr> else x)
                  (credits_table w),
             effects := effects w @ [UpdateCredits (cr_id item) c]\<rparr>)
      | [] \<Rightarrow> (Inl (Exception ''No existing record found to update.''), w))"

section \<open>Team roster: \<^verbatim>\<open>TeamMemberDB\<close>\<close>

definition TeamMemberDB_get_team_members :: "string \<Rightarrow> world \<Rightarrow> team_member list" where
  "TeamMemberDB_get_team_members m w = query_members m (team_table w)"

text \<open>
  \<^verbatim>\<open>create_team_member\<close> copies the fields of the schema object it is given and sets
  its own id and timestamp.
\<close>

definition TeamMemberDB_create_team_member ::
  "string \<Rightarrow> string \<Rightarrow> team_member \<Rightarrow> world \<Rightarrow> team_member \<times> world" where
  "TeamMemberDB_create_team_member uuid now data w =
     (let item = data\<lparr>tm_id := uuid, invitedAt := now\<rparr>
      in (item, w\<lparr>team_table := put_member item (team_table w),
                  effects := effects w @ [PutMember uuid (team_member_email data)]\<rparr>))"

definition string_of_int :: "int \<Rightarrow> string" where
  "string_of_int i = (if i < 0 then ''-'' @ string_of_nat (nat (- i)) else string_of_nat (nat i))"

definition TeamMemberDB_update_credits_in_members ::
  "string \<Rightarrow> string \<Rightarrow> int \<Rightarrow> world \<Rightarrow> (exn + team_member) \<times> world" where
  "TeamMemberDB_update_credits_in_members m email new_credits w =
     (let items = query_members m (team_table w);
          failed = (\<lambda>msg. Exception (''Failed to update credits for '' @ email @ '': '' @ msg))
      in if items = [] then (Inl (failed (''Team member not found: '' @ email)), w)
         else case find (\<lambda>item. team_member_email item = email) items of
             None \<Rightarrow> (Inl (failed (''Team member not found: '' @ email)), w)
           | Some tm \<Rightarrow>
               if new_credits < 0
               then (Inl (failed (''Invalid credit value ('' @ string_of_int new_credits
                                   @ '') for '' @ email)), w)
               else (Inr (tm\<lparr>tm_credits := new_credits\<rparr>),
                     w\<lparr>team_table :=
                          map (\<lambda>x. if tm_id x = tm_id tm then x\<lparr>tm_credits := new_credits\<rparr> else x)
                            (team_table w),
                       effects := effects w @ [UpdateMember (tm_id tm) new_credits]\<rparr>))"

section \<open>Credit service: \<^verbatim>\<open>app/services/credit.py\<close>\<close>

text \<open>
  The clock and the UUID generator are inputs: \<open>uuid\<close> is what \<^verbatim>\<open>uuid.uuid4()\<close> gives
  where the code asks for one, \<open>now\<close> the timestamp.
\<close>

definition update_credit_data ::
  "string \<Rightarrow> string \<Rightarrow> string \<Rightarrow> int \<Rightarrow> world \<Rightarrow> (exn + credits_item) \<times> world" where
  "update_credit_data uuid now m credits_purchased w =
     (let current_credits = CreditsDB_get_credits m w;
          new_total_credits = current_credits + credits_purchased
      in if current_credits = 0
         then (case CreditsDB_create_credits uuid now m new_total_credits w of
                 (item, w') \<Rightarrow> (Inr item, w'))
         else CreditsDB_update_credits now m new_total_credits w)"

definition get_credits :: "string \<Rightarrow> world \<Rightarrow> int" where
  "get_credits m w = CreditsDB_get_credits m w"

record invalidation =
  iv_status :: string
  iv_email :: string
  creditsRestored :: int

definition invalidate_credit ::
  "string \<Rightarrow> string \<Rightarrow> string \<Rightarrow> world \<Rightarrow> (exn + invalidation) \<times> world" where
  "invalidate_credit now email m w =
     (let team_members = TeamMemberDB_get_team_members m w
      in case find (\<lambda>member. team_member_email member = email) team_members of
           None \<Rightarrow> (Inl (HTTPException 404 (''Team member not found: '' @ email)), w)
         | Some tm \<Rightarrow>
             if status tm \<noteq> ''Pending''
             then (Inl (HTTPException 400
                     (''Cannot invalidate credits for team member with status: '' @ status tm)), w)
             else if tm_credits tm < 1
             then (Inl (HTTPException 404 (''No credits found for team member: '' @ email)), w)
             else
               let current_credits = CreditsDB_get_credits m w;
                   tm' = tm\<lparr>tm_credits := tm_credits tm - 1\<rparr>;
                   new_total_credits = current_credits + 1
               in case CreditsDB_update_credits now m new_total_credits w of
                    (Inl e, w1) \<Rightarrow> (Inl e, w1)
                  | (Inr _, w1) \<Rightarrow>
                      (case TeamMemberDB_update_credits_in_members m
                              (team_member_email tm') (tm_credits tm') w1 of
                         (Inl e, w2) \<Rightarrow> (Inl e, w2)
                       | (Inr _, w2) \<Rightarrow>
                           (Inr \<lparr>iv_status = ''credit_invalidated'', iv_email = email,
                                 creditsRestored = 1\<rparr>, w2)))"

section \<open>Team service: \<^verbatim>\<open>app/services/team.py\<close>\<close>

text \<open>
  \<^verbatim>\<open>is_valid_email\<close> matches
  \<^verbatim>\<open>^[a-zA-Z0-9_.+-]+@[a-zA-Z0-9-]+\.[a-zA-Z0-9-.]+$\<close> with \<^verbatim>\<open>re.match\<close>.
  No character class holds the character that follows it in the pattern, so each \<^verbatim>\<open>+\<close>
  takes the longest run and the match is decided without backtracking. Python's \<^verbatim>\<open>$\<close>
  matches at the end of the string and also before a final newline.
\<close>

definition alnum :: "char \<Rightarrow> bool" where
  "alnum c = (let n = (of_char c :: nat)
              in (97 \<le> n \<and> n \<le> 122) \<or> (65 \<le> n \<and> n \<le> 90) \<or> (48 \<le> n \<and> n \<le> 57))"

definition local_char :: "char \<Rightarrow> bool" where
  "local_char c = (alnum c \<or> c \<in> set ''_.+-'')"

definition label_char :: "char \<Rightarrow> bool" where
  "label_char c = (alnum c \<or> c = CHR ''-'')"

definition tail_char :: "char \<Rightarrow> bool" where
  "tail_char c = (alnum c \<or> c = CHR ''-'' \<or> c = CHR ''.'')"

definition is_valid_email :: "string \<Rightarrow> bool" where
  "is_valid_email email =
     (let local_part = takeWhile local_char email;
          r1 = dropWhile local_char email
      in local_part \<noteq> [] \<and>
         (case r1 of
            [] \<Rightarrow> False
          | c1 # r2 \<Rightarrow>
              c1 = CHR ''@'' \<and>
              (let label = takeWhile label_char r2;
                   r3 = dropWhile label_char r2
               in label \<noteq> [] \<and>
                  (case r3 of
                     [] \<Rightarrow> False
                   | c2 # r4 \<Rightarrow>
                       c2 = CHR ''.'' \<and>
                       (let rest = dropWhile tail_char r4
                        in takeWhile tail_char r4 \<noteq> [] \<and>
                           (rest = [] \<or> rest = [CHR 0x0A]))))))"

fun is_team_member_already_invited :: "string \<Rightarrow> team_member list \<Rightarrow> string \<Rightarrow> bool" where
  "is_team_member_already_invited email [] m = False"
| "is_team_member_already_invited email (member # team_members) m =
     (if team_member_email member = email \<and> status member = ''Pending''
         \<and> tm_manager_email member = m
      then True
      else is_team_member_already_invited email team_members m)"

text \<open>
  \<^verbatim>\<open>get_team_members\<close> rebuilds each row as a \<^verbatim>\<open>TeamMemberSchema\<close> with the same
  fields; the rows are kept as they are.
\<close>

definition get_team_members :: "string \<Rightarrow> world \<Rightarrow> team_member list" where
  "get_team_members m w = TeamMemberDB_get_team_members m w"

text \<open>
  What the process is given from outside: the \<^verbatim>\<open>FROM_EMAIL\<close> environment variable, and
  whether the mail provider's \<^verbatim>\<open>send\<close> raises.
\<close>

record env =
  FROM_EMAIL :: "string option"
  sendgrid_raises :: bool

text \<open>
  \<^verbatim>\<open>send_mail\<close> raises \<^verbatim>\<open>ValueError\<close> for a missing sender or recipient. The call to the
  provider sits in a \<^verbatim>\<open>try\<close> whose \<^verbatim>\<open>except Exception\<close> only logs: when the provider
  raises, \<^verbatim>\<open>send_mail\<close> returns normally and no mail has gone out.
\<close>

definition send_mail ::
  "env \<Rightarrow> string \<Rightarrow> string \<Rightarrow> string \<Rightarrow> world \<Rightarrow> (exn + unit) \<times> world" where
  "send_mail ev to_email subject body w =
     (if FROM_EMAIL ev = None \<or> FROM_EMAIL ev = Some []
      then (Inl (ValueError ''Sender email address must be provided.''), w)
      else if to_email = []
      then (Inl (ValueError ''Recipient email address must be provided.''), w)
      else if sendgrid_raises ev then (Inr (), w)
      else (Inr (), w\<lparr>effects := effects w @ [MailSent to_email subject body]\<rparr>))"

text \<open>
  \<^verbatim>\<open>save_team_member\<close> wraps a failure of the store in a \<open>TeamServiceError\<close>; with the
  store available it writes the row.
\<close>

definition save_team_member ::
  "string \<Rightarrow> string \<Rightarrow> team_member \<Rightarrow> world \<Rightarrow> (exn + unit) \<times> world" where
  "save_team_member uuid now tm w =
     (case TeamMemberDB_create_team_member uuid now tm w of (item, w') \<Rightarrow> (Inr (), w'))"

text \<open>The values one invite draws: three UUIDs, one for a new ledger row, and the time.\<close>

record fresh =
  coupon :: string
  schema_uuid :: string
  member_uuid :: string
  credits_uuid :: string
  now :: string

record invite_response =
  ir_status :: string
  ir_email :: string

text \<open>The body of the outer \<^verbatim>\<open>try\<close> of \<^verbatim>\<open>invite_team_member\<close>, line by line.\<close>

definition invite_body ::
  "env \<Rightarrow> fresh \<Rightarrow> string \<Rightarrow> string \<Rightarrow> world \<Rightarrow> (exn + invite_response) \<times> world" where
  "invite_body ev fr email m w =
     (if \<not> is_valid_email email
      then (Inl (TeamServiceError ''Invalid email format'' 400), w)
      else if email = m
      then (Inl (TeamServiceError ''Manager cannot invite themselves'' 400), w)
      else if is_team_member_already_invited email (get_team_members m w) m
      then (Inl (TeamServiceError
                   (''Team member with email '' @ email @ '' is already invited'') 409), w)
      else
        case send_mail ev email ''Your Coupon for AI SuitUp''
               (''<strong>Your coupon code is: '' @ coupon fr @ ''</strong>'') w of
          (Inl e, w1) \<Rightarrow>
            (Inl (TeamServiceError (''Failed to send invitation email: '' @ str_exn e) 500), w1)
        | (Inr _, w1) \<Rightarrow>
            if get_credits m w1 < 1
            then (Inl (HTTPException 400 ''Not enough credits. Please buy credits first.''), w1)
            else
              (case update_credit_data (credits_uuid fr) (now fr) m (- 1) w1 of
                 (Inl e, w2) \<Rightarrow> (Inl e, w2)
               | (Inr _, w2) \<Rightarrow>
                   (case save_team_member (member_uuid fr) (now fr)
                           \<lparr>tm_id = schema_uuid fr, tm_manager_email = m,
                            team_member_email = email, status = ''Pending'',
                            invitedAt = now fr,
                            generation_link = ''https://aisuitup.com/generate/'' @ email,
                            result_page_link = ''https://aisuitup.com/results/'' @ email,
                            tm_credits = 1\<rparr> w2 of
                      (Inl e, w3) \<Rightarrow> (Inl e, w3)
                    | (Inr _, w3) \<Rightarrow>
                        (Inr \<lparr>ir_status = ''invited'', ir_email = email\<rparr>, w3))))"

text \<open>
  The two handlers of the outer \<^verbatim>\<open>try\<close>: a \<open>TeamServiceError\<close> becomes an
  \<open>HTTPException\<close> with its code; every other exception, an \<open>HTTPException\<close> raised in
  the body among them, becomes an \<open>HTTPException\<close> with code 500.
\<close>

fun invite_handler :: "exn \<Rightarrow> exn" where
  "invite_handler (TeamServiceError msg code) = HTTPException code msg"
| "invite_handler e = HTTPException 500 (''An unexpected error occurred: '' @ str_exn e)"

definition invite_team_member ::
  "env \<Rightarrow> fresh \<Rightarrow> string \<Rightarrow> string \<Rightarrow> world \<Rightarrow> (exn + invite_response) \<times> world" where
  "invite_team_member ev fr email m w =
     (case invite_body ev fr email m w of
        (Inl e, w') \<Rightarrow> (Inl (invite_handler e), w')
      | (Inr r, w') \<Rightarrow> (Inr r, w'))"

section \<open>Routes: \<^verbatim>\<open>app/routes/credit.py\<close>\<close>

text \<open>
  \<^verbatim>\<open>invalidate_credit_route\<close>: an \<open>HTTPException\<close> is raised again as it is, any other
  exception becomes one with code 500. The manager's email is the one of the verified token.
\<close>

fun invalidate_route_handler :: "exn \<Rightarrow> exn" where
  "invalidate_route_handler (HTTPException code detail) = HTTPException code detail"
| "invalidate_route_handler e = HTTPException 500 (str_exn e)"

definition invalidate_credit_route ::
  "string \<Rightarrow> string \<Rightarrow> string \<Rightarrow> world \<Rightarrow> (exn + invalidation) \<times> world" where
  "invalidate_credit_route nw email m w =
     (if email = []
      then (Inl (invalidate_route_handler
                   (HTTPException 400 ''Team member email is required'')), w)
      else if \<not> is_valid_email email
      then (Inl (invalidate_route_handler (HTTPException 400 ''Invalid email format'')), w)
      else case invalidate_credit nw email m w of
             (Inl e, w') \<Rightarrow> (Inl (invalidate_route_handler e), w')
           | (Inr r, w') \<Rightarrow> (Inr r, w'))"

text \<open>
  The payment provider's event, as far as the handler reads it: its type and the metadata
  of the session, a dictionary of strings.
\<close>

record event =
  ev_type :: string
  ev_metadata :: "(string \<times> string) list"

record webhook_response =
  wr_status :: string
  wr_message :: string

text \<open>
  \<^verbatim>\<open>stripe_webhook\<close>. The provider's \<^verbatim>\<open>construct_event\<close> (signature check and parsing)
  and Python's \<^verbatim>\<open>int\<close> on a string are taken as parameters; \<open>secret\<close> is
  \<^verbatim>\<open>STRIPE_WEBHOOK_KEY\<close>. \<^verbatim>\<open>int(...)\<close> stands outside every \<^verbatim>\<open>try\<close>, its
  \<^verbatim>\<open>ValueError\<close> leaves the handler as it is. An event without a manager email hands
  \<^verbatim>\<open>None\<close> to the ledger as the index key, which the store refuses.
\<close>

definition stripe_webhook ::
  "(string \<Rightarrow> string \<Rightarrow> string \<Rightarrow> exn + event) \<Rightarrow> (string \<Rightarrow> int option) \<Rightarrow> string \<Rightarrow>
   string \<Rightarrow> string \<Rightarrow> string \<Rightarrow> string option \<Rightarrow> world \<Rightarrow> (exn + webhook_response) \<times> world" where
  "stripe_webhook construct_event py_int secret uuid nw payload sig_header w =
     (case sig_header of
        None \<Rightarrow> (Inl (HTTPException 400 ''Missing stripe-signature header''), w)
      | Some sig \<Rightarrow>
          if sig = [] then (Inl (HTTPException 400 ''Missing stripe-signature header''), w)
          else
            case construct_event payload sig secret of
              Inl (ValueError _) \<Rightarrow> (Inl (HTTPException 400 ''Invalid payload format''), w)
            | Inl (SignatureVerificationError _) \<Rightarrow>
                (Inl (HTTPException 400 ''Invalid signature. Check STRIPE_WEBHOOK_KEY.''), w)
            | Inl e \<Rightarrow>
                (Inl (HTTPException 500 (''Webhook processing error: '' @ str_exn e)), w)
            | Inr ev \<Rightarrow>
                if ev_type ev = ''checkout.session.completed''
                then
                  (case (case map_of (ev_metadata ev) ''credits'' of
                           None \<Rightarrow> Some 0
                         | Some s \<Rightarrow> py_int s) of
                     None \<Rightarrow> (Inl (ValueError ''invalid literal for int()''), w)
                   | Some n \<Rightarrow>
                       (case map_of (ev_metadata ev) ''manager_email'' of
                          None \<Rightarrow>
                            (Inl (HTTPException 500
                                    ''Error updating credit data: invalid index key''), w)
                        | Some m \<Rightarrow>
                            (case update_credit_data uuid nw m n w of
                               (Inl e, w') \<Rightarrow>
                                 (Inl (HTTPException 500
                                         (''Error updating credit data: '' @ str_exn e)), w')
                             | (Inr _, w') \<Rightarrow>
                                 (Inr \<lparr>wr_status = ''success'',
                                       wr_message = ''Credits updated successfully''\<rparr>, w'))))
                else (Inr \<lparr>wr_status = ''ignored'', wr_message = ''Event not handled''\<rparr>, w))"

text \<open>
  A reader of decimal literals, an instance of the \<open>py_int\<close> parameter: an optional sign
  and one or more digits.
\<close>

definition decimal_int :: "string \<Rightarrow> int option" where
  "decimal_int s =
     (let neg = (take 1 s = ''-'');
          ds = (if take 1 s = ''-'' \<or> take 1 s = ''+'' then drop 1 s else s)
      in if ds \<noteq> [] \<and> list_all (\<lambda>c. 48 \<le> (of_char c :: nat) \<and> (of_char c :: nat) \<le> 57) ds
         then Some ((if neg then - 1 else 1)
                    * int (foldl (\<lambda>a c. 10 * a + (of_char c - 48)) 0 ds))
         else None)"

section \<open>Example states\<close>

text \<open>Concrete states, environments and events at which the theorems below are run.\<close>

definition w_one_credit :: world where
  "w_one_credit =
     \<lparr>team_table = [],
      credits_table = [\<lparr>cr_id = ''c1'', manager_email = ''boss@corp.io'', credits = 1,
                        last_updated = ''t0''\<rparr>],
      effects = []\<rparr>"

definition w_no_credit :: world where
  "w_no_credit =
     \<lparr>team_table = [],
      credits_table = [\<lparr>cr_id = ''c1'', manager_email = ''boss@corp.io'', credits = 0,
                        last_updated = ''t0''\<rparr>],
      effects = []\<rparr>"

definition member_of :: "string \<Rightarrow> string \<Rightarrow> string \<Rightarrow> int \<Rightarrow> team_member" where
  "member_of i email st c =
     \<lparr>tm_id = i, tm_manager_email = ''boss@corp.io'', team_member_email = email, status = st,
      invitedAt = ''t0'', generation_link = ''https://aisuitup.com/generate/'' @ email,
      result_page_link = ''https://aisuitup.com/results/'' @ email, tm_credits = c\<rparr>"

definition w_roster :: world where
  "w_roster =
     \<lparr>team_table = [member_of ''m1'' ''ann@corp.io'' ''Pending'' 1,
                     member_of ''m2'' ''bob@corp.io'' ''Active'' 1,
                     member_of ''m3'' ''cat@corp.io'' ''Pending'' 0],
      credits_table = [\<lparr>cr_id = ''c1'', manager_email = ''boss@corp.io'', credits = 3,
                        last_updated = ''t0''\<rparr>,
                       \<lparr>cr_id = ''c2'', manager_email = ''other@corp.io'', credits = 7,
                        last_updated = ''t0''\<rparr>],
      effects = []\<rparr>"

text \<open>
  The roster after a member who had become Active was invited again: the duplicate check of
  the invite looks at Pending rows only, so a second row with the same email is written.
\<close>

definition w_reinvited :: world where
  "w_reinvited =
     \<lparr>team_table = [member_of ''m1'' ''ann@corp.io'' ''Active'' 1,
                     member_of ''m4'' ''ann@corp.io'' ''Pending'' 1],
      credits_table = [\<lparr>cr_id = ''c1'', manager_email = ''boss@corp.io'', credits = 2,
                        last_updated = ''t1''\<rparr>],
      effects = []\<rparr>"

definition fr0 :: fresh where
  "fr0 = \<lparr>coupon = ''k1'', schema_uuid = ''u1'', member_uuid = ''u2'', credits_uuid = ''u3'',
          now = ''t1''\<rparr>"

definition env_up :: env where
  "env_up = \<lparr>FROM_EMAIL = Some ''noreply@aisuitup.com'', sendgrid_raises = False\<rparr>"

definition env_provider_down :: env where
  "env_provider_down = \<lparr>FROM_EMAIL = Some ''noreply@aisuitup.com'', sendgrid_raises = True\<rparr>"

text \<open>
  A stand-in for the provider's verification: the signature is good when it equals the
  secret; the payload is read as the event type, the metadata name the manager and 10
  credits.
\<close>

definition ex_construct_event :: "string \<Rightarrow> string \<Rightarrow> string \<Rightarrow> exn + event" where
  "ex_construct_event payload sg secret =
     (if sg = secret
      then Inr \<lparr>ev_type = payload,
                ev_metadata = [(''manager_email'', ''boss@corp.io''), (''credits'', ''10'')]\<rparr>
      else Inl (SignatureVerificationError
                  ''No signatures found matching the expected signature for payload''))"

section \<open>Discount calculator: properties\<close>

text \<open>
  C6. The discount calculator returns the rate of the highest tier the team size reaches,
  first match wins: 0.35 from 100, 0.30 from 50, 0.25 from 15, 0.20 from 5, otherwise 0;
  the sizes 0, 4, 5, 14, 15, 49, 50, 99, 100, 1000 give
  0, 0, 0.20, 0.20, 0.25, 0.25, 0.30, 0.30, 0.35, 0.35. It is a function of the team size
  alone. (The tier formula holds for every integer; below 5, so also below 0, the rate is 0.)
\<close>

theorem apply_discount_tiers:
  "apply_discount n =
     (if n \<ge> 100 then 0.35 else if n \<ge> 50 then 0.30 else if n \<ge> 15 then 0.25
      else if n \<ge> 5 then 0.20 else 0)
   \<and> map apply_discount [0, 4, 5, 14, 15, 49, 50, 99, 100, 1000]
       = [0, 0, 0.20, 0.20, 0.25, 0.25, 0.30, 0.30, 0.35, 0.35]"
  by (simp add: apply_discount_def DISCOUNTS_def)

theorem apply_discount_tiers_witness:
  "apply_discount 60 = 0.30 \<and> apply_discount 3 = 0"
  using apply_discount_tiers [of 60] apply_discount_tiers [of 3] by simp

section \<open>Credit ledger: properties\<close>

lemma latest_Nil_iff:
  "(query_credits_latest m tbl = []) = (\<forall>x \<in> set tbl. manager_email x \<noteq> m)"
  by (auto simp: query_credits_latest_def filter_empty_conv)

lemma latest_ConsD:
  "query_credits_latest m tbl = x # xs \<Longrightarrow> xs = [] \<and> x \<in> set tbl \<and> manager_email x = m"
proof -
  assume a: "query_credits_latest m tbl = x # xs"
  let ?f = "filter (\<lambda>x. manager_email x = m) tbl"
  from a have "take 1 (rev ?f) = x # xs" by (simp add: query_credits_latest_def)
  then have "xs = [] \<and> x \<in> set (rev ?f)"
    by (cases "rev ?f") auto
  then show ?thesis by auto
qed

lemma latest_map_update:
  "query_credits_latest m (map (\<lambda>x. if cr_id x = i then x\<lparr>credits := c, last_updated := t\<rparr> else x) tbl)
   = map (\<lambda>x. if cr_id x = i then x\<lparr>credits := c, last_updated := t\<rparr> else x) (query_credits_latest m tbl)"
proof -
  let ?u = "\<lambda>x. if cr_id x = i then x\<lparr>credits := c, last_updated := t\<rparr> else x"
  have "filter (\<lambda>x. manager_email x = m) (map ?u tbl) = map ?u (filter (\<lambda>x. manager_email x = m) tbl)"
    by (induction tbl) auto
  then show ?thesis
    by (simp add: query_credits_latest_def rev_map take_map)
qed

lemma latest_append_same:
  "manager_email item = m \<Longrightarrow> query_credits_latest m (tbl @ [item]) = [item]"
  by (simp add: query_credits_latest_def)

lemma latest_append_other:
  "manager_email item \<noteq> m \<Longrightarrow> query_credits_latest m (tbl @ [item]) = query_credits_latest m tbl"
  by (simp add: query_credits_latest_def)

lemma distinct_cr_id_eq:
  "distinct (map cr_id tbl) \<Longrightarrow> x \<in> set tbl \<Longrightarrow> y \<in> set tbl \<Longrightarrow> cr_id x = cr_id y \<Longrightarrow> x = y"
  by (meson distinct_map inj_onD)

lemma update_credits_read_back:
  "query_credits_latest m (credits_table w) \<noteq> [] \<Longrightarrow>
   \<exists>item w'. CreditsDB_update_credits nw m c w = (Inr item, w') \<and> credits item = c
      \<and> CreditsDB_get_credits m w' = c \<and> team_table w' = team_table w
      \<and> effects w' = effects w @ [UpdateCredits (cr_id item) c]
      \<and> query_credits_latest m (credits_table w') \<noteq> []"
  by (cases "query_credits_latest m (credits_table w)")
     (auto simp: CreditsDB_update_credits_def CreditsDB_get_credits_def latest_map_update)

lemma update_credits_others:
  assumes d: "distinct (map cr_id (credits_table w))"
      and r: "CreditsDB_update_credits nw m c w = (Inr item, w')"
      and ne: "m' \<noteq> m"
  shows "CreditsDB_get_credits m' w' = CreditsDB_get_credits m' w"
proof (cases "query_credits_latest m (credits_table w)")
  case Nil
  with r show ?thesis by (simp add: CreditsDB_update_credits_def)
next
  case (Cons x xs)
  then have x: "x \<in> set (credits_table w)" "manager_email x = m"
    using latest_ConsD by blast+
  from r Cons have w': "credits_table w' =
      map (\<lambda>y. if cr_id y = cr_id x then y\<lparr>credits := c, last_updated := nw\<rparr> else y) (credits_table w)"
    by (auto simp: CreditsDB_update_credits_def)
  show ?thesis
  proof (cases "query_credits_latest m' (credits_table w)")
    case Nil
    then show ?thesis by (simp add: CreditsDB_get_credits_def w' latest_map_update)
  next
    case (Cons y ys)
    then have y: "y \<in> set (credits_table w)" "manager_email y = m'"
      using latest_ConsD by blast+
    with x ne d have "cr_id y \<noteq> cr_id x"
      using distinct_cr_id_eq by blast
    with Cons show ?thesis by (simp add: CreditsDB_get_credits_def w' latest_map_update)
  qed
qed

lemma get_credits_tables:
  "credits_table w1 = credits_table w \<Longrightarrow> get_credits m w1 = get_credits m w"
  by (simp add: get_credits_def CreditsDB_get_credits_def)

lemma update_credit_data_credit:
  assumes fresh: "uuid \<notin> set (map cr_id (credits_table w))"
      and d: "distinct (map cr_id (credits_table w))"
  shows "\<exists>item w'. update_credit_data uuid nw m n w = (Inr item, w')
      \<and> CreditsDB_get_credits m w' = CreditsDB_get_credits m w + n
      \<and> (\<forall>m'. m' \<noteq> m \<longrightarrow> CreditsDB_get_credits m' w' = CreditsDB_get_credits m' w)
      \<and> team_table w' = team_table w"
proof (cases "CreditsDB_get_credits m w = 0")
  case True
  let ?item = "\<lparr>cr_id = uuid, manager_email = m, credits = n, last_updated = nw\<rparr>"
  let ?w' = "w\<lparr>credits_table := credits_table w @ [?item],
                effects := effects w @ [PutCredits uuid m n]\<rparr>"
  from fresh have put: "put_credits ?item (credits_table w) = credits_table w @ [?item]"
    by (simp add: put_credits_def)
  have res: "update_credit_data uuid nw m n w = (Inr ?item, ?w')"
    using True put by (simp add: update_credit_data_def CreditsDB_create_credits_def Let_def)
  have g: "CreditsDB_get_credits m ?w' = CreditsDB_get_credits m w + n"
    using True by (simp add: CreditsDB_get_credits_def latest_append_same)
  have o: "\<forall>m'. m' \<noteq> m \<longrightarrow> CreditsDB_get_credits m' ?w' = CreditsDB_get_credits m' w"
    by (simp add: CreditsDB_get_credits_def latest_append_other)
  from res g o show ?thesis by auto
next
  case False
  then have ne: "query_credits_latest m (credits_table w) \<noteq> []"
    by (auto simp: CreditsDB_get_credits_def)
  from update_credits_read_back [OF ne, of nw "CreditsDB_get_credits m w + n"]
  obtain item w' where
    u: "CreditsDB_update_credits nw m (CreditsDB_get_credits m w + n) w = (Inr item, w')"
    and g: "CreditsDB_get_credits m w' = CreditsDB_get_credits m w + n"
    and t: "team_table w' = team_table w"
    by blast
  have res: "update_credit_data uuid nw m n w = (Inr item, w')"
    using False u by (simp add: update_credit_data_def Let_def)
  from update_credits_others [OF d u]
  have o: "\<forall>m'. m' \<noteq> m \<longrightarrow> CreditsDB_get_credits m' w' = CreditsDB_get_credits m' w"
    by blast
  from res g o t show ?thesis by blast
qed

text \<open>
  C3 (as amended). \<^verbatim>\<open>CreditsDB.update_credits\<close>, the ledger's set-balance, fails
  exactly when no credit row exists for the manager, whatever the requested balance. It
  does not look at the sign of the new balance: with a row present it succeeds for every
  integer, a negative one included, and the balance read afterwards is the value given.
\<close>

theorem update_credits_fails_iff_no_record:
  "((\<exists>e. CreditsDB_update_credits nw m c w = (Inl e, w))
      = (\<forall>x \<in> set (credits_table w). manager_email x \<noteq> m))
   \<and> ((\<exists>x \<in> set (credits_table w). manager_email x = m) \<longrightarrow>
        (\<exists>item w'. CreditsDB_update_credits nw m c w = (Inr item, w') \<and> credits item = c
            \<and> CreditsDB_get_credits m w' = c))"
proof (cases "query_credits_latest m (credits_table w)")
  case Nil
  then show ?thesis
    using latest_Nil_iff [of m "credits_table w"]
    by (auto simp: CreditsDB_update_credits_def)
next
  case (Cons x xs)
  then have ne: "query_credits_latest m (credits_table w) \<noteq> []" by simp
  then have ex: "\<exists>x \<in> set (credits_table w). manager_email x = m"
    using latest_Nil_iff [of m "credits_table w"] by blast
  from update_credits_read_back [OF ne, of nw c] ex show ?thesis by auto
qed

theorem update_credits_fails_iff_no_record_witness:
  "(\<exists>e. CreditsDB_update_credits ''t1'' ''nobody@corp.io'' 5 w_one_credit = (Inl e, w_one_credit))
   \<and> (\<exists>item w'. CreditsDB_update_credits ''t1'' ''boss@corp.io'' (- 1) w_one_credit = (Inr item, w')
          \<and> credits item = - 1 \<and> CreditsDB_get_credits ''boss@corp.io'' w' = - 1)"
  using update_credits_fails_iff_no_record [of "''t1''" "''nobody@corp.io''" 5 w_one_credit]
        update_credits_fails_iff_no_record [of "''t1''" "''boss@corp.io''" "- 1" w_one_credit]
  by (simp add: w_one_credit_def)

text \<open>
  Against C3 as stated: with a row present, setting the balance to \<open>-1\<close> does not fail;
  the row then holds \<open>-1\<close>.
\<close>

theorem update_credits_negative_counterexample:
  "CreditsDB_update_credits ''t1'' ''boss@corp.io'' (- 1) w_one_credit
     = (Inr \<lparr>cr_id = ''c1'', manager_email = ''boss@corp.io'', credits = - 1,
             last_updated = ''t1''\<rparr>,
        \<lparr>team_table = [],
         credits_table = [\<lparr>cr_id = ''c1'', manager_email = ''boss@corp.io'', credits = - 1,
                           last_updated = ''t1''\<rparr>],
         effects = [UpdateCredits ''c1'' (- 1)]\<rparr>)"
  by code_simp

text \<open>
  C4. \<^verbatim>\<open>update_credit_data\<close> decides between creating and updating by
  \<^verbatim>\<open>current_credits == 0\<close>, which also holds for an existing row whose balance is 0.
  Run on a ledger where the manager's only row has balance 0, a credit of 5 writes a second
  row for the same manager instead of adding to the first.
\<close>

theorem update_credit_data_zero_balance_second_record:
  "update_credit_data ''c2'' ''t1'' ''boss@corp.io'' 5 w_no_credit
     = (Inr \<lparr>cr_id = ''c2'', manager_email = ''boss@corp.io'', credits = 5,
             last_updated = ''t1''\<rparr>,
        \<lparr>team_table = [],
         credits_table = [\<lparr>cr_id = ''c1'', manager_email = ''boss@corp.io'', credits = 0,
                           last_updated = ''t0''\<rparr>,
                          \<lparr>cr_id = ''c2'', manager_email = ''boss@corp.io'', credits = 5,
                           last_updated = ''t1''\<rparr>],
         effects = [PutCredits ''c2'' ''boss@corp.io'' 5]\<rparr>)"
  by code_simp

section \<open>Credit invalidation: properties\<close>

lemma find_members_map_update:
  "find (\<lambda>x. team_member_email x = email)
     (query_members m (map (\<lambda>x. if tm_id x = i then x\<lparr>tm_credits := c\<rparr> else x) tbl))
   = map_option (\<lambda>x. if tm_id x = i then x\<lparr>tm_credits := c\<rparr> else x)
       (find (\<lambda>x. team_member_email x = email) (query_members m tbl))"
  by (induction tbl) (auto simp: query_members_def)

lemma update_credits_in_members_found:
  assumes f: "find (\<lambda>x. team_member_email x = email) (query_members m (team_table w)) = Some tm"
      and c: "0 \<le> c"
  shows "TeamMemberDB_update_credits_in_members m email c w =
           (Inr (tm\<lparr>tm_credits := c\<rparr>),
            w\<lparr>team_table := map (\<lambda>x. if tm_id x = tm_id tm then x\<lparr>tm_credits := c\<rparr> else x) (team_table w),
              effects := effects w @ [UpdateMember (tm_id tm) c]\<rparr>)"
proof -
  from f have "query_members m (team_table w) \<noteq> []" by auto
  with f c show ?thesis
    by (simp add: TeamMemberDB_update_credits_in_members_def Let_def)
qed

text \<open>
  C8. \<^verbatim>\<open>invalidate_credit\<close> checks in this order: a member with the given email
  exists under the manager (else 404), the member's status is Pending (else 400), the
  member holds at least one credit (else 404). The member is the first row of the manager
  with that email. Each failure is raised before any write: the state returned is the
  state given, so the manager's balance and the member's credits are as before.
\<close>

theorem invalidate_credit_preconditions:
  "(find (\<lambda>x. team_member_email x = email) (query_members m (team_table w)) = None \<longrightarrow>
      invalidate_credit nw email m w
        = (Inl (HTTPException 404 (''Team member not found: '' @ email)), w))
   \<and> (\<forall>tm. find (\<lambda>x. team_member_email x = email) (query_members m (team_table w)) = Some tm
            \<and> status tm \<noteq> ''Pending'' \<longrightarrow>
      invalidate_credit nw email m w
        = (Inl (HTTPException 400
             (''Cannot invalidate credits for team member with status: '' @ status tm)), w))
   \<and> (\<forall>tm. find (\<lambda>x. team_member_email x = email) (query_members m (team_table w)) = Some tm
            \<and> status tm = ''Pending'' \<and> tm_credits tm < 1 \<longrightarrow>
      invalidate_credit nw email m w
        = (Inl (HTTPException 404 (''No credits found for team member: '' @ email)), w))"
  by (simp add: invalidate_credit_def TeamMemberDB_get_team_members_def)

theorem invalidate_credit_preconditions_witness:
  "invalidate_credit ''t1'' ''zed@corp.io'' ''boss@corp.io'' w_roster
     = (Inl (HTTPException 404 ''Team member not found: zed@corp.io''), w_roster)
   \<and> invalidate_credit ''t1'' ''bob@corp.io'' ''boss@corp.io'' w_roster
     = (Inl (HTTPException 400
          ''Cannot invalidate credits for team member with status: Active''), w_roster)
   \<and> invalidate_credit ''t1'' ''cat@corp.io'' ''boss@corp.io'' w_roster
     = (Inl (HTTPException 404 ''No credits found for team member: cat@corp.io''), w_roster)"
  using invalidate_credit_preconditions [of "''zed@corp.io''" "''boss@corp.io''" w_roster "''t1''"]
        invalidate_credit_preconditions [of "''bob@corp.io''" "''boss@corp.io''" w_roster "''t1''"]
        invalidate_credit_preconditions [of "''cat@corp.io''" "''boss@corp.io''" w_roster "''t1''"]
  by (simp add: w_roster_def member_of_def query_members_def)

text \<open>
  C7 (as amended). The member an invalidation acts on is the one the workflow finds: the
  first row under the manager with the given email. When that row is Pending and holds
  \<open>c \<ge> 1\<close> credits, and the ledger write succeeds (a credit row of the manager exists
  to update), the invalidation returns the confirmation with exactly 1 credit restored; the manager's
  balance is its prior value plus 1, the member's credits are \<open>c - 1\<close>, and the two
  writes happen in this order: the manager's balance first, the member's credits second.
\<close>

theorem invalidate_credit_effect:
  assumes f: "find (\<lambda>x. team_member_email x = email) (query_members m (team_table w)) = Some tm"
      and p: "status tm = ''Pending''"
      and c: "1 \<le> tm_credits tm"
      and r: "\<exists>x \<in> set (credits_table w). manager_email x = m"
  shows "\<exists>w' cid. invalidate_credit nw email m w
            = (Inr \<lparr>iv_status = ''credit_invalidated'', iv_email = email, creditsRestored = 1\<rparr>, w')
      \<and> get_credits m w' = get_credits m w + 1
      \<and> find (\<lambda>x. team_member_email x = email) (query_members m (team_table w'))
          = Some (tm\<lparr>tm_credits := tm_credits tm - 1\<rparr>)
      \<and> effects w' = effects w @ [UpdateCredits cid (get_credits m w + 1),
                                  UpdateMember (tm_id tm) (tm_credits tm - 1)]"
proof -
  from r have ne: "query_credits_latest m (credits_table w) \<noteq> []"
    using latest_Nil_iff [of m "credits_table w"] by blast
  from update_credits_read_back [OF ne, of nw "CreditsDB_get_credits m w + 1"]
  obtain item w1 where
    u: "CreditsDB_update_credits nw m (CreditsDB_get_credits m w + 1) w = (Inr item, w1)"
    and g: "CreditsDB_get_credits m w1 = CreditsDB_get_credits m w + 1"
    and t: "team_table w1 = team_table w"
    and e: "effects w1 = effects w @ [UpdateCredits (cr_id item) (CreditsDB_get_credits m w + 1)]"
    by blast
  from f t have f1: "find (\<lambda>x. team_member_email x = email) (query_members m (team_table w1)) = Some tm"
    by simp
  from f have em: "team_member_email tm = email"
    by (auto simp: find_Some_iff)
  from c have c0: "0 \<le> tm_credits tm - 1" by simp
  let ?w2 = "w1\<lparr>team_table := map (\<lambda>x. if tm_id x = tm_id tm then x\<lparr>tm_credits := tm_credits tm - 1\<rparr> else x) (team_table w1),
              effects := effects w1 @ [UpdateMember (tm_id tm) (tm_credits tm - 1)]\<rparr>"
  have res: "invalidate_credit nw email m w
        = (Inr \<lparr>iv_status = ''credit_invalidated'', iv_email = email, creditsRestored = 1\<rparr>, ?w2)"
    using f p c u em update_credits_in_members_found [OF f1 c0]
    by (simp add: invalidate_credit_def TeamMemberDB_get_team_members_def Let_def)
  have g2: "get_credits m ?w2 = get_credits m w + 1"
    using g by (simp add: get_credits_def CreditsDB_get_credits_def)
  have f2: "find (\<lambda>x. team_member_email x = email) (query_members m (team_table ?w2))
          = Some (tm\<lparr>tm_credits := tm_credits tm - 1\<rparr>)"
    using f1 by (simp add: find_members_map_update)
  have e2: "effects ?w2 = effects w @ [UpdateCredits (cr_id item) (get_credits m w + 1),
                                  UpdateMember (tm_id tm) (tm_credits tm - 1)]"
    using e by (simp add: get_credits_def)
  from res g2 f2 e2 show ?thesis by blast
qed

theorem invalidate_credit_effect_witness:
  "\<exists>w' cid. invalidate_credit ''t1'' ''ann@corp.io'' ''boss@corp.io'' w_roster
        = (Inr \<lparr>iv_status = ''credit_invalidated'', iv_email = ''ann@corp.io'',
                creditsRestored = 1\<rparr>, w')
      \<and> get_credits ''boss@corp.io'' w' = 4
      \<and> find (\<lambda>x. team_member_email x = ''ann@corp.io'')
           (query_members ''boss@corp.io'' (team_table w'))
          = Some (member_of ''m1'' ''ann@corp.io'' ''Pending'' 0)
      \<and> effects w' = [UpdateCredits cid 4, UpdateMember ''m1'' 0]"
proof -
  have f: "find (\<lambda>x. team_member_email x = ''ann@corp.io'')
             (query_members ''boss@corp.io'' (team_table w_roster))
           = Some (member_of ''m1'' ''ann@corp.io'' ''Pending'' 1)"
    by (simp add: w_roster_def member_of_def query_members_def)
  have p: "status (member_of ''m1'' ''ann@corp.io'' ''Pending'' 1) = ''Pending''"
    by (simp add: member_of_def)
  have c: "1 \<le> tm_credits (member_of ''m1'' ''ann@corp.io'' ''Pending'' 1)"
    by (simp add: member_of_def)
  have r: "\<exists>x \<in> set (credits_table w_roster). manager_email x = ''boss@corp.io''"
    by (simp add: w_roster_def)
  have g: "get_credits ''boss@corp.io'' w_roster = 3"
    by (simp add: get_credits_def CreditsDB_get_credits_def query_credits_latest_def w_roster_def)
  have e: "effects w_roster = []" by (simp add: w_roster_def)
  from invalidate_credit_effect [OF f p c r, of "''t1''"] g e show ?thesis
    by (simp add: member_of_def)
qed

text \<open>
  Against C7 as stated: a member with the given email exists under the manager, is Pending
  and holds 1 credit, and the manager has a ledger row; yet an earlier Active row with the
  same email is the one the workflow finds, so the invalidation fails with code 400 and
  restores nothing.
\<close>

theorem invalidate_reinvited_member_counterexample:
  "member_of ''m4'' ''ann@corp.io'' ''Pending'' 1 \<in> set (team_table w_reinvited)
   \<and> tm_manager_email (member_of ''m4'' ''ann@corp.io'' ''Pending'' 1) = ''boss@corp.io''
   \<and> get_credits ''boss@corp.io'' w_reinvited = 2
   \<and> invalidate_credit ''t2'' ''ann@corp.io'' ''boss@corp.io'' w_reinvited
       = (Inl (HTTPException 400
            ''Cannot invalidate credits for team member with status: Active''), w_reinvited)"
  by code_simp

text \<open>
  C10. The route \<^verbatim>\<open>invalidate_credit_route\<close> rejects an empty or syntactically
  invalid team-member email with code 400 before the service is called: the answer does not
  depend on the store, which is left as it is. Where no member with that email exists, the
  service alone would have answered 404.
\<close>

theorem invalidate_credit_route_rejects_bad_email:
  "email = [] \<or> \<not> is_valid_email email \<longrightarrow>
     (\<exists>detail. invalidate_credit_route nw email m w = (Inl (HTTPException 400 detail), w))
     \<and> (find (\<lambda>x. team_member_email x = email) (query_members m (team_table w)) = None \<longrightarrow>
          (\<exists>detail. invalidate_credit nw email m w = (Inl (HTTPException 404 detail), w)))"
  by (auto simp: invalidate_credit_route_def invalidate_credit_def
        TeamMemberDB_get_team_members_def)

theorem invalidate_credit_route_rejects_bad_email_witness:
  "(\<exists>detail. invalidate_credit_route ''t1'' ''not-an-email'' ''boss@corp.io'' w_roster
       = (Inl (HTTPException 400 detail), w_roster))
   \<and> (\<exists>detail. invalidate_credit ''t1'' ''not-an-email'' ''boss@corp.io'' w_roster
       = (Inl (HTTPException 404 detail), w_roster))"
proof -
  have v: "\<not> is_valid_email ''not-an-email''" by code_simp
  have f: "find (\<lambda>x. team_member_email x = ''not-an-email'')
             (query_members ''boss@corp.io'' (team_table w_roster)) = None"
    by (simp add: w_roster_def member_of_def query_members_def)
  from invalidate_credit_route_rejects_bad_email
         [of "''not-an-email''" "''t1''" "''boss@corp.io''" w_roster] v f
  show ?thesis by simp
qed

section \<open>Invite workflow: properties\<close>

lemma is_valid_email_nonempty: "is_valid_email email \<Longrightarrow> email \<noteq> []"
  by (auto simp: is_valid_email_def)

lemma already_invited_iff:
  "is_team_member_already_invited email ms m
     = (\<exists>x \<in> set ms. team_member_email x = email \<and> status x = ''Pending'' \<and> tm_manager_email x = m)"
  by (induction ms) auto

lemma already_invited_roster:
  "is_team_member_already_invited email (get_team_members m w) m
     = (\<exists>x \<in> set (team_table w). tm_manager_email x = m \<and> team_member_email x = email
            \<and> status x = ''Pending'')"
  by (auto simp: already_invited_iff get_team_members_def TeamMemberDB_get_team_members_def
        query_members_def)

lemma send_mail_tables:
  "send_mail ev to_email subject body w = (r, w1) \<Longrightarrow>
     team_table w1 = team_table w \<and> credits_table w1 = credits_table w
     \<and> (effects w1 = effects w \<or> effects w1 = effects w @ [MailSent to_email subject body])"
  by (auto simp: send_mail_def split: if_splits)

lemma invite_insufficient_credits:
  assumes v: "is_valid_email email" and ne: "email \<noteq> m"
      and ni: "\<not> is_team_member_already_invited email (get_team_members m w) m"
      and bal: "get_credits m w < 1"
  shows "\<exists>e w'. invite_team_member ev fr email m w = (Inl e, w')
         \<and> credits_table w' = credits_table w \<and> team_table w' = team_table w
         \<and> get_credits m w' = get_credits m w
         \<and> (effects w' = effects w
            \<or> effects w' = effects w @ [MailSent email ''Your Coupon for AI SuitUp''
                 (''<strong>Your coupon code is: '' @ coupon fr @ ''</strong>'')])"
proof -
  let ?subject = "''Your Coupon for AI SuitUp''"
  let ?body = "''<strong>Your coupon code is: '' @ coupon fr @ ''</strong>''"
  obtain r w1 where sm: "send_mail ev email ?subject ?body w = (r, w1)"
    by (cases "send_mail ev email ?subject ?body w") blast
  from send_mail_tables [OF sm]
  have t: "team_table w1 = team_table w" and ct: "credits_table w1 = credits_table w"
    and ef: "effects w1 = effects w \<or> effects w1 = effects w @ [MailSent email ?subject ?body]"
    by blast+
  from ct have g: "get_credits m w1 = get_credits m w" by (rule get_credits_tables)
  show ?thesis
  proof (cases r)
    case (Inl e)
    with v ne ni sm have "invite_team_member ev fr email m w
        = (Inl (HTTPException 500 (''Failed to send invitation email: '' @ str_exn e)), w1)"
      by (simp add: invite_team_member_def invite_body_def)
    with t ct g ef show ?thesis by blast
  next
    case (Inr u)
    with v ne ni sm bal g have "invite_team_member ev fr email m w
        = (Inl (invite_handler (HTTPException 400 ''Not enough credits. Please buy credits first.'')), w1)"
      by (simp add: invite_team_member_def invite_body_def)
    with t ct g ef show ?thesis by blast
  qed
qed

lemma invite_mail_before_credit_check:
  assumes v: "is_valid_email email" and ne: "email \<noteq> m"
      and ni: "\<not> is_team_member_already_invited email (get_team_members m w) m"
      and bal: "get_credits m w < 1"
      and sender: "FROM_EMAIL ev = Some sender" "sender \<noteq> []"
      and up: "\<not> sendgrid_raises ev"
  shows "\<exists>e. invite_team_member ev fr email m w
           = (Inl e, w\<lparr>effects := effects w @ [MailSent email ''Your Coupon for AI SuitUp''
                 (''<strong>Your coupon code is: '' @ coupon fr @ ''</strong>'')]\<rparr>)"
proof -
  let ?subject = "''Your Coupon for AI SuitUp''"
  let ?body = "''<strong>Your coupon code is: '' @ coupon fr @ ''</strong>''"
  let ?w1 = "w\<lparr>effects := effects w @ [MailSent email ?subject ?body]\<rparr>"
  from v have e0: "email \<noteq> []" by (rule is_valid_email_nonempty)
  have sm: "send_mail ev email ?subject ?body w = (Inr (), ?w1)"
    using sender up e0 by (simp add: send_mail_def)
  have g: "get_credits m ?w1 = get_credits m w" by (rule get_credits_tables) simp
  have "invite_team_member ev fr email m w
      = (Inl (invite_handler (HTTPException 400 ''Not enough credits. Please buy credits first.'')),
         ?w1)"
    using v ne ni sm bal g by (simp add: invite_team_member_def invite_body_def)
  then show ?thesis by blast
qed

text \<open>
  C2 (as amended). \<^verbatim>\<open>invite_team_member\<close> checks, in this order and before any effect,
  that the invitee email is syntactically valid (400), that it differs from the manager's
  email (400), and that no Pending member with that email exists under the manager (409);
  the first failure wins and leaves the state as it is. The credit balance is checked after
  the coupon is generated and the invitation mail is sent, and before the credit debit and
  the roster write: an invite that passes the first three checks with a balance below 1
  fails, writes neither ledger nor roster (a balance of 0 stays 0), and the only effect it
  can have had is the invitation mail. With the sender configured and the mail provider
  accepting, that mail has been sent when the invite fails: the state returned is the state
  given with exactly this one effect added.
\<close>

theorem invite_precondition_order:
  "(\<not> is_valid_email email \<longrightarrow>
      invite_team_member ev fr email m w = (Inl (HTTPException 400 ''Invalid email format''), w))
   \<and> (is_valid_email email \<and> email = m \<longrightarrow>
      invite_team_member ev fr email m w
        = (Inl (HTTPException 400 ''Manager cannot invite themselves''), w))
   \<and> (is_valid_email email \<and> email \<noteq> m
        \<and> (\<exists>x \<in> set (team_table w). tm_manager_email x = m \<and> team_member_email x = email
               \<and> status x = ''Pending'') \<longrightarrow>
      invite_team_member ev fr email m w
        = (Inl (HTTPException 409
             (''Team member with email '' @ email @ '' is already invited'')), w))
   \<and> (is_valid_email email \<and> email \<noteq> m
        \<and> \<not> (\<exists>x \<in> set (team_table w). tm_manager_email x = m \<and> team_member_email x = email
               \<and> status x = ''Pending'')
        \<and> get_credits m w < 1 \<longrightarrow>
      (\<exists>e w'. invite_team_member ev fr email m w = (Inl e, w')
         \<and> credits_table w' = credits_table w \<and> team_table w' = team_table w
         \<and> get_credits m w' = get_credits m w
         \<and> (effects w' = effects w
            \<or> effects w' = effects w @ [MailSent email ''Your Coupon for AI SuitUp''
                 (''<strong>Your coupon code is: '' @ coupon fr @ ''</strong>'')])))
   \<and> (is_valid_email email \<and> email \<noteq> m
        \<and> \<not> (\<exists>x \<in> set (team_table w). tm_manager_email x = m \<and> team_member_email x = email
               \<and> status x = ''Pending'')
        \<and> get_credits m w < 1
        \<and> FROM_EMAIL ev = Some sender \<and> sender \<noteq> [] \<and> \<not> sendgrid_raises ev \<longrightarrow>
      (\<exists>e. invite_team_member ev fr email m w
           = (Inl e, w\<lparr>effects := effects w @ [MailSent email ''Your Coupon for AI SuitUp''
                 (''<strong>Your coupon code is: '' @ coupon fr @ ''</strong>'')]\<rparr>)))"
proof -
  let ?subject = "''Your Coupon for AI SuitUp''"
  let ?body = "''<strong>Your coupon code is: '' @ coupon fr @ ''</strong>''"
  have a: "\<not> is_valid_email email \<Longrightarrow>
      invite_team_member ev fr email m w = (Inl (HTTPException 400 ''Invalid email format''), w)"
    by (simp add: invite_team_member_def invite_body_def)
  have b: "is_valid_email email \<Longrightarrow> email = m \<Longrightarrow>
      invite_team_member ev fr email m w
        = (Inl (HTTPException 400 ''Manager cannot invite themselves''), w)"
    by (simp add: invite_team_member_def invite_body_def)
  have c: "is_valid_email email \<Longrightarrow> email \<noteq> m \<Longrightarrow>
      is_team_member_already_invited email (get_team_members m w) m \<Longrightarrow>
      invite_team_member ev fr email m w
        = (Inl (HTTPException 409
             (''Team member with email '' @ email @ '' is already invited'')), w)"
    by (simp add: invite_team_member_def invite_body_def)
  note d = invite_insufficient_credits [of email m w ev fr]
  note e = invite_mail_before_credit_check [of email m w ev sender fr]
  from a b c d e show ?thesis
    unfolding already_invited_roster by blast
qed

theorem invite_precondition_order_witness:
  "invite_team_member env_up fr0 ''not-an-email'' ''boss@corp.io'' w_roster
     = (Inl (HTTPException 400 ''Invalid email format''), w_roster)
   \<and> invite_team_member env_up fr0 ''boss@corp.io'' ''boss@corp.io'' w_roster
     = (Inl (HTTPException 400 ''Manager cannot invite themselves''), w_roster)
   \<and> invite_team_member env_up fr0 ''ann@corp.io'' ''boss@corp.io'' w_roster
     = (Inl (HTTPException 409 ''Team member with email ann@corp.io is already invited''),
        w_roster)
   \<and> (\<exists>e w'. invite_team_member env_up fr0 ''ann@corp.io'' ''boss@corp.io'' w_no_credit = (Inl e, w')
        \<and> credits_table w' = credits_table w_no_credit \<and> team_table w' = []
        \<and> get_credits ''boss@corp.io'' w' = 0)
   \<and> (\<exists>e. invite_team_member env_up fr0 ''ann@corp.io'' ''boss@corp.io'' w_no_credit
         = (Inl e, w_no_credit\<lparr>effects := [MailSent ''ann@corp.io'' ''Your Coupon for AI SuitUp''
                                               ''<strong>Your coupon code is: k1</strong>'']\<rparr>))"
proof -
  have v1: "\<not> is_valid_email ''not-an-email''" by code_simp
  have v2: "is_valid_email ''boss@corp.io''" by code_simp
  have v3: "is_valid_email ''ann@corp.io''" by code_simp
  have p: "\<exists>x \<in> set (team_table w_roster). tm_manager_email x = ''boss@corp.io''
             \<and> team_member_email x = ''ann@corp.io'' \<and> status x = ''Pending''"
    by (simp add: w_roster_def member_of_def)
  have np: "\<not> (\<exists>x \<in> set (team_table w_no_credit). tm_manager_email x = ''boss@corp.io''
             \<and> team_member_email x = ''ann@corp.io'' \<and> status x = ''Pending'')"
    by (simp add: w_no_credit_def)
  have g: "get_credits ''boss@corp.io'' w_no_credit = 0"
    by (simp add: get_credits_def CreditsDB_get_credits_def query_credits_latest_def
          w_no_credit_def)
  have t: "team_table w_no_credit = []" by (simp add: w_no_credit_def)
  from invite_precondition_order [of "''not-an-email''" env_up fr0 "''boss@corp.io''" w_roster] v1
  have a: "invite_team_member env_up fr0 ''not-an-email'' ''boss@corp.io'' w_roster
     = (Inl (HTTPException 400 ''Invalid email format''), w_roster)" by simp
  from invite_precondition_order [of "''boss@corp.io''" env_up fr0 "''boss@corp.io''" w_roster] v2
  have b: "invite_team_member env_up fr0 ''boss@corp.io'' ''boss@corp.io'' w_roster
     = (Inl (HTTPException 400 ''Manager cannot invite themselves''), w_roster)" by simp
  from invite_precondition_order [of "''ann@corp.io''" env_up fr0 "''boss@corp.io''" w_roster] v3 p
  have c: "invite_team_member env_up fr0 ''ann@corp.io'' ''boss@corp.io'' w_roster
     = (Inl (HTTPException 409 ''Team member with email ann@corp.io is already invited''),
        w_roster)" by simp
  from invite_precondition_order [of "''ann@corp.io''" env_up fr0 "''boss@corp.io''" w_no_credit
         "''noreply@aisuitup.com''"] v3 np g t
  have d: "\<exists>e w'. invite_team_member env_up fr0 ''ann@corp.io'' ''boss@corp.io'' w_no_credit = (Inl e, w')
        \<and> credits_table w' = credits_table w_no_credit \<and> team_table w' = []
        \<and> get_credits ''boss@corp.io'' w' = 0" by auto
  have s: "FROM_EMAIL env_up = Some ''noreply@aisuitup.com'' \<and> ''noreply@aisuitup.com'' \<noteq> []
             \<and> \<not> sendgrid_raises env_up"
    by (simp add: env_up_def)
  have ef: "effects w_no_credit = []" "coupon fr0 = ''k1''"
    by (simp_all add: w_no_credit_def fr0_def)
  from invite_precondition_order [of "''ann@corp.io''" env_up fr0 "''boss@corp.io''" w_no_credit
         "''noreply@aisuitup.com''"] v3 np g s ef
  have e: "\<exists>e. invite_team_member env_up fr0 ''ann@corp.io'' ''boss@corp.io'' w_no_credit
         = (Inl e, w_no_credit\<lparr>effects := [MailSent ''ann@corp.io'' ''Your Coupon for AI SuitUp''
                                               ''<strong>Your coupon code is: k1</strong>'']\<rparr>)"
    by simp
  from a b c d e show ?thesis by blast
qed

text \<open>
  Against C2 as stated: with a balance of 0 and the other three preconditions met, the
  invitation mail has been sent when the invite fails, and the failure carries code 500,
  the handler for unexpected exceptions having caught the 400 raised in the body.
\<close>

theorem invite_zero_balance_counterexample:
  "invite_team_member env_up fr0 ''ann@corp.io'' ''boss@corp.io'' w_no_credit
     = (Inl (HTTPException 500
          ''An unexpected error occurred: 400: Not enough credits. Please buy credits first.''),
        \<lparr>team_table = [],
         credits_table = [\<lparr>cr_id = ''c1'', manager_email = ''boss@corp.io'', credits = 0,
                           last_updated = ''t0''\<rparr>],
         effects = [MailSent ''ann@corp.io'' ''Your Coupon for AI SuitUp''
                      ''<strong>Your coupon code is: k1</strong>'']\<rparr>)"
  by code_simp

text \<open>
  C9. For an invite that meets all four preconditions, with the sender address configured,
  the mail provider accepting the mail, a fresh member id and the ledger's ids distinct:
  the workflow returns the invited status with the invitee email; the manager's balance
  decreases by exactly 1; exactly one member row is added, with status Pending, credits 1
  and the two links built from the invitee email, the rows already there unchanged; no other
  manager's balance changes. The effects are, in order, the mail, the debit, the roster
  write.
\<close>

theorem invite_success:
  assumes v: "is_valid_email email"
      and ne: "email \<noteq> m"
      and ni: "\<not> (\<exists>x \<in> set (team_table w). tm_manager_email x = m \<and> team_member_email x = email
                     \<and> status x = ''Pending'')"
      and bal: "1 \<le> get_credits m w"
      and sender: "FROM_EMAIL ev = Some sender" "sender \<noteq> []"
      and up: "\<not> sendgrid_raises ev"
      and fresh: "member_uuid fr \<notin> set (map tm_id (team_table w))"
      and d: "distinct (map cr_id (credits_table w))"
  shows "\<exists>w' cid. invite_team_member ev fr email m w
            = (Inr \<lparr>ir_status = ''invited'', ir_email = email\<rparr>, w')
      \<and> get_credits m w' = get_credits m w - 1
      \<and> team_table w' = team_table w @
           [\<lparr>tm_id = member_uuid fr, tm_manager_email = m, team_member_email = email,
             status = ''Pending'', invitedAt = now fr,
             generation_link = ''https://aisuitup.com/generate/'' @ email,
             result_page_link = ''https://aisuitup.com/results/'' @ email,
             tm_credits = 1\<rparr>]
      \<and> (\<forall>m'. m' \<noteq> m \<longrightarrow> get_credits m' w' = get_credits m' w)
      \<and> effects w' = effects w @
           [MailSent email ''Your Coupon for AI SuitUp''
              (''<strong>Your coupon code is: '' @ coupon fr @ ''</strong>''),
            UpdateCredits cid (get_credits m w - 1),
            PutMember (member_uuid fr) email]"
proof -
  let ?subject = "''Your Coupon for AI SuitUp''"
  let ?body = "''<strong>Your coupon code is: '' @ coupon fr @ ''</strong>''"
  let ?w1 = "w\<lparr>effects := effects w @ [MailSent email ?subject ?body]\<rparr>"
  let ?tm = "\<lparr>tm_id = member_uuid fr, tm_manager_email = m, team_member_email = email,
             status = ''Pending'', invitedAt = now fr,
             generation_link = ''https://aisuitup.com/generate/'' @ email,
             result_page_link = ''https://aisuitup.com/results/'' @ email,
             tm_credits = 1\<rparr>"
  from v have e0: "email \<noteq> []" by (rule is_valid_email_nonempty)
  have sm: "send_mail ev email ?subject ?body w = (Inr (), ?w1)"
    using sender up e0 by (simp add: send_mail_def)
  have g1: "CreditsDB_get_credits m ?w1 = CreditsDB_get_credits m w"
    by (simp add: CreditsDB_get_credits_def)
  from bal have nz: "CreditsDB_get_credits m w \<noteq> 0" by (simp add: get_credits_def)
  then have nel: "query_credits_latest m (credits_table ?w1) \<noteq> []"
    by (auto simp: CreditsDB_get_credits_def)
  from update_credits_read_back [OF nel, of "now fr" "CreditsDB_get_credits m w - 1"]
  obtain item w2 where
    u: "CreditsDB_update_credits (now fr) m (CreditsDB_get_credits m w - 1) ?w1 = (Inr item, w2)"
    and g2: "CreditsDB_get_credits m w2 = CreditsDB_get_credits m w - 1"
    and t2: "team_table w2 = team_table w"
    and e2: "effects w2 = effects w @ [MailSent email ?subject ?body]
                @ [UpdateCredits (cr_id item) (CreditsDB_get_credits m w - 1)]"
    by auto
  have d1: "distinct (map cr_id (credits_table ?w1))" using d by simp
  have o2: "\<forall>m'. m' \<noteq> m \<longrightarrow> CreditsDB_get_credits m' w2 = CreditsDB_get_credits m' w"
  proof (intro allI impI)
    fix m' assume "m' \<noteq> m"
    from update_credits_others [OF d1 u this]
    show "CreditsDB_get_credits m' w2 = CreditsDB_get_credits m' w"
      by (simp add: CreditsDB_get_credits_def)
  qed
  have ucd: "update_credit_data (credits_uuid fr) (now fr) m (- 1) ?w1 = (Inr item, w2)"
    using nz g1 u by (simp add: update_credit_data_def Let_def)
  let ?w3 = "w2\<lparr>team_table := team_table w2 @ [?tm],
                 effects := effects w2 @ [PutMember (member_uuid fr) email]\<rparr>"
  have sv: "save_team_member (member_uuid fr) (now fr) (?tm\<lparr>tm_id := schema_uuid fr\<rparr>) w2
              = (Inr (), ?w3)"
    using fresh t2
    by (simp add: save_team_member_def TeamMemberDB_create_team_member_def put_member_def Let_def)
  have res: "invite_team_member ev fr email m w
            = (Inr \<lparr>ir_status = ''invited'', ir_email = email\<rparr>, ?w3)"
    using v ne ni sm bal g1 ucd sv
    by (simp add: invite_team_member_def invite_body_def already_invited_roster get_credits_def)
  have g3: "get_credits m ?w3 = get_credits m w - 1"
    using g2 by (simp add: get_credits_def CreditsDB_get_credits_def)
  have o3: "\<forall>m'. m' \<noteq> m \<longrightarrow> get_credits m' ?w3 = get_credits m' w"
    using o2 by (simp add: get_credits_def CreditsDB_get_credits_def)
  have t3: "team_table ?w3 = team_table w @ [?tm]" using t2 by simp
  have e3: "effects ?w3 = effects w @
           [MailSent email ?subject ?body,
            UpdateCredits (cr_id item) (get_credits m w - 1),
            PutMember (member_uuid fr) email]"
    using e2 by (simp add: get_credits_def)
  from res g3 o3 t3 e3 show ?thesis by blast
qed

theorem invite_success_witness:
  "\<exists>w' cid. invite_team_member env_up fr0 ''ann@corp.io'' ''boss@corp.io'' w_one_credit
        = (Inr \<lparr>ir_status = ''invited'', ir_email = ''ann@corp.io''\<rparr>, w')
      \<and> get_credits ''boss@corp.io'' w' = 0
      \<and> team_table w' = [member_of ''u2'' ''ann@corp.io'' ''Pending'' 1\<lparr>invitedAt := ''t1''\<rparr>]
      \<and> effects w' = [MailSent ''ann@corp.io'' ''Your Coupon for AI SuitUp''
                         ''<strong>Your coupon code is: k1</strong>'',
                       UpdateCredits cid 0, PutMember ''u2'' ''ann@corp.io'']"
proof -
  have v: "is_valid_email ''ann@corp.io''" by code_simp
  have ne: "''ann@corp.io'' \<noteq> ''boss@corp.io''" by simp
  have ni: "\<not> (\<exists>x \<in> set (team_table w_one_credit). tm_manager_email x = ''boss@corp.io''
             \<and> team_member_email x = ''ann@corp.io'' \<and> status x = ''Pending'')"
    by (simp add: w_one_credit_def)
  have g: "get_credits ''boss@corp.io'' w_one_credit = 1"
    by (simp add: get_credits_def CreditsDB_get_credits_def query_credits_latest_def
          w_one_credit_def)
  then have bal: "1 \<le> get_credits ''boss@corp.io'' w_one_credit" by simp
  have s1: "FROM_EMAIL env_up = Some ''noreply@aisuitup.com''" by (simp add: env_up_def)
  have s2: "''noreply@aisuitup.com'' \<noteq> []" by simp
  have up: "\<not> sendgrid_raises env_up" by (simp add: env_up_def)
  have fresh: "member_uuid fr0 \<notin> set (map tm_id (team_table w_one_credit))"
    by (simp add: w_one_credit_def)
  have d: "distinct (map cr_id (credits_table w_one_credit))"
    by (simp add: w_one_credit_def)
  have t: "team_table w_one_credit = []" "effects w_one_credit = []"
    by (simp_all add: w_one_credit_def)
  from invite_success [OF v ne ni bal s1 s2 up fresh d] g t show ?thesis
    by (auto simp: fr0_def member_of_def)
qed

text \<open>
  C1. \<^verbatim>\<open>send_mail\<close> catches the exception of the mail provider and only logs it, so the
  handler in \<^verbatim>\<open>invite_team_member\<close> that turns a failed send into an error with code 500
  never sees it. Run at a request that meets every precondition while the provider's send
  raises: no mail goes out, and the invite still returns the invited status, debits the
  credit and writes the member row.
\<close>

theorem invite_provider_failure_still_debits:
  "invite_team_member env_provider_down fr0 ''ann@corp.io'' ''boss@corp.io'' w_one_credit
     = (Inr \<lparr>ir_status = ''invited'', ir_email = ''ann@corp.io''\<rparr>,
        \<lparr>team_table = [member_of ''u2'' ''ann@corp.io'' ''Pending'' 1\<lparr>invitedAt := ''t1''\<rparr>],
         credits_table = [\<lparr>cr_id = ''c1'', manager_email = ''boss@corp.io'', credits = 0,
                           last_updated = ''t1''\<rparr>],
         effects = [UpdateCredits ''c1'' 0, PutMember ''u2'' ''ann@corp.io'']\<rparr>)"
  by code_simp

section \<open>Purchase confirmation: properties\<close>

lemma stripe_webhook_rejects:
  "sig_header = None \<or> sig_header = Some [] \<Longrightarrow>
     stripe_webhook ce pyint secret uuid nw payload sig_header w
       = (Inl (HTTPException 400 ''Missing stripe-signature header''), w)"
  by (auto simp: stripe_webhook_def)

lemma stripe_webhook_unverified:
  assumes "sig_header = Some sg" "sg \<noteq> []" "ce payload sg secret = Inl e"
  shows "(\<exists>x. stripe_webhook ce pyint secret uuid nw payload sig_header w = (Inl x, w))
       \<and> ((\<exists>msg. e = SignatureVerificationError msg \<or> e = ValueError msg) \<longrightarrow>
            (\<exists>detail. stripe_webhook ce pyint secret uuid nw payload sig_header w
                = (Inl (HTTPException 400 detail), w)))"
  using assms by (cases e) (auto simp: stripe_webhook_def)

lemma stripe_webhook_ignored:
  assumes "sig_header = Some sg" "sg \<noteq> []" "ce payload sg secret = Inr evt"
      and "ev_type evt \<noteq> ''checkout.session.completed''"
  shows "stripe_webhook ce pyint secret uuid nw payload sig_header w
       = (Inr \<lparr>wr_status = ''ignored'', wr_message = ''Event not handled''\<rparr>, w)"
  using assms by (simp add: stripe_webhook_def)

lemma stripe_webhook_completed:
  assumes s: "sig_header = Some sg" "sg \<noteq> []" "ce payload sg secret = Inr evt"
      and t: "ev_type evt = ''checkout.session.completed''"
      and mx: "map_of (ev_metadata evt) ''manager_email'' = Some X"
      and mc: "map_of (ev_metadata evt) ''credits'' = Some s" "pyint s = Some N"
      and fresh: "uuid \<notin> set (map cr_id (credits_table w))"
      and d: "distinct (map cr_id (credits_table w))"
  shows "\<exists>w'. stripe_webhook ce pyint secret uuid nw payload sig_header w
            = (Inr \<lparr>wr_status = ''success'', wr_message = ''Credits updated successfully''\<rparr>, w')
       \<and> get_credits X w' = get_credits X w + N
       \<and> (\<forall>m'. m' \<noteq> X \<longrightarrow> get_credits m' w' = get_credits m' w)"
proof -
  from update_credit_data_credit [OF fresh d, of nw X N]
  obtain item w' where u: "update_credit_data uuid nw X N w = (Inr item, w')"
    and g: "CreditsDB_get_credits X w' = CreditsDB_get_credits X w + N"
    and o: "\<forall>m'. m' \<noteq> X \<longrightarrow> CreditsDB_get_credits m' w' = CreditsDB_get_credits m' w"
    by blast
  have "stripe_webhook ce pyint secret uuid nw payload sig_header w
            = (Inr \<lparr>wr_status = ''success'', wr_message = ''Credits updated successfully''\<rparr>, w')"
    using s t mx mc u by (simp add: stripe_webhook_def)
  with g o show ?thesis by (auto simp: get_credits_def)
qed

lemma stripe_webhook_mutates_only_verified:
  assumes "credits_table (snd (stripe_webhook ce pyint secret uuid nw payload sig_header w))
             \<noteq> credits_table w"
  shows "\<exists>sg evt. sig_header = Some sg \<and> sg \<noteq> [] \<and> ce payload sg secret = Inr evt
            \<and> ev_type evt = ''checkout.session.completed''"
proof (cases sig_header)
  case None
  with assms show ?thesis by (simp add: stripe_webhook_def)
next
  case (Some sg)
  show ?thesis
  proof (cases "sg = []")
    case True
    with Some assms show ?thesis by (simp add: stripe_webhook_def)
  next
    case False
    show ?thesis
    proof (cases "ce payload sg secret")
      case (Inl e)
      from stripe_webhook_unverified [where ce = ce and payload = payload and secret = secret and pyint = pyint and uuid = uuid and nw = nw and w = w, OF Some False Inl] assms
      show ?thesis by auto
    next
      case (Inr evt)
      show ?thesis
      proof (cases "ev_type evt = ''checkout.session.completed''")
        case True
        with Some False Inr show ?thesis by blast
      next
        case F: False
        from stripe_webhook_ignored [where ce = ce and payload = payload and secret = secret and pyint = pyint and uuid = uuid and nw = nw and w = w, OF Some False Inr F] assms
        show ?thesis by simp
      qed
    qed
  qed
qed

text \<open>
  C5. \<^verbatim>\<open>stripe_webhook\<close>: a missing or empty signature header is rejected with 400 and
  the state unchanged; when verification fails the state is unchanged, and a signature or
  payload error gives 400; a verified event of another type is acknowledged as ignored with
  the state unchanged; a verified \<^verbatim>\<open>checkout.session.completed\<close> event whose metadata
  carry manager \<open>X\<close> and \<open>N\<close> credits (with a fresh row id and distinct ledger ids)
  succeeds, raises the balance of \<open>X\<close> by exactly \<open>N\<close> and leaves every other
  manager's balance as it was. The ledger table changes only for a verified completed event.
\<close>

theorem stripe_webhook_ledger:
  "(sig_header = None \<or> sig_header = Some [] \<longrightarrow>
      (\<exists>detail. stripe_webhook ce pyint secret uuid nw payload sig_header w
          = (Inl (HTTPException 400 detail), w)))
   \<and> (\<forall>sg e. sig_header = Some sg \<and> sg \<noteq> [] \<and> ce payload sg secret = Inl e \<longrightarrow>
        (\<exists>x. stripe_webhook ce pyint secret uuid nw payload sig_header w = (Inl x, w))
        \<and> ((\<exists>msg. e = SignatureVerificationError msg \<or> e = ValueError msg) \<longrightarrow>
            (\<exists>detail. stripe_webhook ce pyint secret uuid nw payload sig_header w
                = (Inl (HTTPException 400 detail), w))))
   \<and> (\<forall>sg evt. sig_header = Some sg \<and> sg \<noteq> [] \<and> ce payload sg secret = Inr evt
          \<and> ev_type evt \<noteq> ''checkout.session.completed'' \<longrightarrow>
        stripe_webhook ce pyint secret uuid nw payload sig_header w
          = (Inr \<lparr>wr_status = ''ignored'', wr_message = ''Event not handled''\<rparr>, w))
   \<and> (\<forall>sg evt X s N. sig_header = Some sg \<and> sg \<noteq> [] \<and> ce payload sg secret = Inr evt
          \<and> ev_type evt = ''checkout.session.completed''
          \<and> map_of (ev_metadata evt) ''manager_email'' = Some X
          \<and> map_of (ev_metadata evt) ''credits'' = Some s \<and> pyint s = Some N
          \<and> uuid \<notin> set (map cr_id (credits_table w))
          \<and> distinct (map cr_id (credits_table w)) \<longrightarrow>
        (\<exists>w'. stripe_webhook ce pyint secret uuid nw payload sig_header w
            = (Inr \<lparr>wr_status = ''success'', wr_message = ''Credits updated successfully''\<rparr>, w')
          \<and> get_credits X w' = get_credits X w + N
          \<and> (\<forall>m'. m' \<noteq> X \<longrightarrow> get_credits m' w' = get_credits m' w)))
   \<and> (credits_table (snd (stripe_webhook ce pyint secret uuid nw payload sig_header w))
         \<noteq> credits_table w \<longrightarrow>
        (\<exists>sg evt. sig_header = Some sg \<and> sg \<noteq> [] \<and> ce payload sg secret = Inr evt
            \<and> ev_type evt = ''checkout.session.completed''))"
proof (intro conjI allI impI)
  assume "sig_header = None \<or> sig_header = Some []"
  from stripe_webhook_rejects [OF this]
  show "\<exists>detail. stripe_webhook ce pyint secret uuid nw payload sig_header w
          = (Inl (HTTPException 400 detail), w)" by blast
next
  fix sg e assume a: "sig_header = Some sg \<and> sg \<noteq> [] \<and> ce payload sg secret = Inl e"
  then have h: "sig_header = Some sg" "sg \<noteq> []" "ce payload sg secret = Inl e" by simp_all
  note uv = stripe_webhook_unverified [where ce = ce and payload = payload and secret = secret
      and pyint = pyint and uuid = uuid and nw = nw and w = w, OF h]
  from uv
  show "\<exists>x. stripe_webhook ce pyint secret uuid nw payload sig_header w = (Inl x, w)" by blast
  assume "\<exists>msg. e = SignatureVerificationError msg \<or> e = ValueError msg"
  with uv
  show "\<exists>detail. stripe_webhook ce pyint secret uuid nw payload sig_header w
                = (Inl (HTTPException 400 detail), w)" by blast
next
  fix sg evt assume "sig_header = Some sg \<and> sg \<noteq> [] \<and> ce payload sg secret = Inr evt
          \<and> ev_type evt \<noteq> ''checkout.session.completed''"
  then show "stripe_webhook ce pyint secret uuid nw payload sig_header w
          = (Inr \<lparr>wr_status = ''ignored'', wr_message = ''Event not handled''\<rparr>, w)"
    using stripe_webhook_ignored by blast
next
  fix sg evt X s N
  assume "sig_header = Some sg \<and> sg \<noteq> [] \<and> ce payload sg secret = Inr evt
          \<and> ev_type evt = ''checkout.session.completed''
          \<and> map_of (ev_metadata evt) ''manager_email'' = Some X
          \<and> map_of (ev_metadata evt) ''credits'' = Some s \<and> pyint s = Some N
          \<and> uuid \<notin> set (map cr_id (credits_table w))
          \<and> distinct (map cr_id (credits_table w))"
  then show "\<exists>w'. stripe_webhook ce pyint secret uuid nw payload sig_header w
            = (Inr \<lparr>wr_status = ''success'', wr_message = ''Credits updated successfully''\<rparr>, w')
          \<and> get_credits X w' = get_credits X w + N
          \<and> (\<forall>m'. m' \<noteq> X \<longrightarrow> get_credits m' w' = get_credits m' w)"
    using stripe_webhook_completed by blast
next
  assume "credits_table (snd (stripe_webhook ce pyint secret uuid nw payload sig_header w))
         \<noteq> credits_table w"
  then show "\<exists>sg evt. sig_header = Some sg \<and> sg \<noteq> [] \<and> ce payload sg secret = Inr evt
            \<and> ev_type evt = ''checkout.session.completed''"
    by (rule stripe_webhook_mutates_only_verified)
qed

theorem stripe_webhook_ledger_witness:
  "(\<exists>detail. stripe_webhook ex_construct_event decimal_int ''whsec'' ''c9'' ''t1''
        ''checkout.session.completed'' None w_roster
      = (Inl (HTTPException 400 detail), w_roster))
   \<and> (\<exists>detail. stripe_webhook ex_construct_event decimal_int ''whsec'' ''c9'' ''t1''
        ''checkout.session.completed'' (Some ''forged'') w_roster
      = (Inl (HTTPException 400 detail), w_roster))
   \<and> stripe_webhook ex_construct_event decimal_int ''whsec'' ''c9'' ''t1''
        ''payment_intent.created'' (Some ''whsec'') w_roster
      = (Inr \<lparr>wr_status = ''ignored'', wr_message = ''Event not handled''\<rparr>, w_roster)
   \<and> (\<exists>w'. stripe_webhook ex_construct_event decimal_int ''whsec'' ''c9'' ''t1''
        ''checkout.session.completed'' (Some ''whsec'') w_roster
      = (Inr \<lparr>wr_status = ''success'', wr_message = ''Credits updated successfully''\<rparr>, w')
      \<and> get_credits ''boss@corp.io'' w' = 13 \<and> get_credits ''other@corp.io'' w' = 7)"
proof -
  let ?good = "\<lparr>ev_type = ''checkout.session.completed'',
                ev_metadata = [(''manager_email'', ''boss@corp.io''), (''credits'', ''10'')]\<rparr>"
  let ?other = "\<lparr>ev_type = ''payment_intent.created'',
                ev_metadata = [(''manager_email'', ''boss@corp.io''), (''credits'', ''10'')]\<rparr>"
  have bad: "ex_construct_event ''checkout.session.completed'' ''forged'' ''whsec''
      = Inl (SignatureVerificationError
               ''No signatures found matching the expected signature for payload'')"
    by (simp add: ex_construct_event_def)
  have good: "ex_construct_event ''checkout.session.completed'' ''whsec'' ''whsec'' = Inr ?good"
    by (simp add: ex_construct_event_def)
  have other: "ex_construct_event ''payment_intent.created'' ''whsec'' ''whsec'' = Inr ?other"
    by (simp add: ex_construct_event_def)
  have n: "decimal_int ''10'' = Some 10" by code_simp
  have fresh: "''c9'' \<notin> set (map cr_id (credits_table w_roster))"
    by (simp add: w_roster_def)
  have d: "distinct (map cr_id (credits_table w_roster))"
    by (simp add: w_roster_def)
  have g: "get_credits ''boss@corp.io'' w_roster = 3" "get_credits ''other@corp.io'' w_roster = 7"
    by (simp_all add: get_credits_def CreditsDB_get_credits_def query_credits_latest_def
          w_roster_def)
  note th = stripe_webhook_ledger [where ce = ex_construct_event and pyint = decimal_int
      and secret = "''whsec''" and uuid = "''c9''" and nw = "''t1''" and w = w_roster]
  from th [where payload = "''checkout.session.completed''" and sig_header = None]
  have a: "\<exists>detail. stripe_webhook ex_construct_event decimal_int ''whsec'' ''c9'' ''t1''
        ''checkout.session.completed'' None w_roster
      = (Inl (HTTPException 400 detail), w_roster)" by simp
  from th [where payload = "''checkout.session.completed''" and sig_header = "Some ''forged''"] bad
  have b: "\<exists>detail. stripe_webhook ex_construct_event decimal_int ''whsec'' ''c9'' ''t1''
        ''checkout.session.completed'' (Some ''forged'') w_roster
      = (Inl (HTTPException 400 detail), w_roster)" by simp
  from th [where payload = "''payment_intent.created''" and sig_header = "Some ''whsec''"] other
  have c: "stripe_webhook ex_construct_event decimal_int ''whsec'' ''c9'' ''t1''
        ''payment_intent.created'' (Some ''whsec'') w_roster
      = (Inr \<lparr>wr_status = ''ignored'', wr_message = ''Event not handled''\<rparr>, w_roster)" by simp
  from th [where payload = "''checkout.session.completed''" and sig_header = "Some ''whsec''"]
       good n fresh d g
  have e: "\<exists>w'. stripe_webhook ex_construct_event decimal_int ''whsec'' ''c9'' ''t1''
        ''checkout.session.completed'' (Some ''whsec'') w_roster
      = (Inr \<lparr>wr_status = ''success'', wr_message = ''Credits updated successfully''\<rparr>, w')
      \<and> get_credits ''boss@corp.io'' w' = 13 \<and> get_credits ''other@corp.io'' w' = 7"
    by force
  from a b c e show ?thesis by blast
qed

end
